theory Spec2Isabelle
  imports Main
begin

section \<open>Values of the host language\<close>

text \<open>
  The client library is written in TypeScript, and several of its functions inspect the
  runtime type or the truthiness of what they are given. The values they can see are
  modelled by one datatype. Numbers are integers (the service's timestamps are integral
  milliseconds), strings are sequences of 8-bit code units, an object is the list of its
  own properties in insertion order, and a function value is known only by its identity:
  it is an ordinary function with the properties that every function has and no others.
  \<open>JNoop\<close> is the module-level function \<^verbatim>\<open>const noop = function () {}\<close> of
  \<^verbatim>\<open>baseclient.ts\<close>, and \<open>JPromiseCallback\<close> is the callback that \<^verbatim>\<open>Utils.promisify\<close>
  passes on behalf of the promise it returns.
\<close>

datatype js_error =
    Error string
  | ErrorInfo string int int
  | TypeError string
  | SyntaxError string

datatype jsval =
    JUndefined
  | JNull
  | JBool bool
  | JNum int
  | JStr string
  | JArr "jsval list"
  | JObj "(string \<times> jsval) list"
  | JFun nat
  | JNoop
  | JPromiseCallback
  | JErr js_error

text \<open>Truthiness, as tested by \<^verbatim>\<open>if (v)\<close>, \<^verbatim>\<open>!v\<close> and \<^verbatim>\<open>v || w\<close>.\<close>

fun truthy :: "jsval \<Rightarrow> bool" where
  "truthy JUndefined = False"
| "truthy JNull = False"
| "truthy (JBool b) = b"
| "truthy (JNum n) = (n \<noteq> 0)"
| "truthy (JStr s) = (s \<noteq> [])"
| "truthy (JArr xs) = True"
| "truthy (JObj kvs) = True"
| "truthy (JFun f) = True"
| "truthy JNoop = True"
| "truthy JPromiseCallback = True"
| "truthy (JErr e) = True"

text \<open>The \<^verbatim>\<open>typeof\<close> operator.\<close>

fun typeof :: "jsval \<Rightarrow> string" where
  "typeof JUndefined = ''undefined''"
| "typeof JNull = ''object''"
| "typeof (JBool b) = ''boolean''"
| "typeof (JNum n) = ''number''"
| "typeof (JStr s) = ''string''"
| "typeof (JArr xs) = ''object''"
| "typeof (JObj kvs) = ''object''"
| "typeof (JFun f) = ''function''"
| "typeof JNoop = ''function''"
| "typeof JPromiseCallback = ''function''"
| "typeof (JErr e) = ''object''"

section \<open>Objects as property lists\<close>

type_synonym props = "(string \<times> jsval) list"

text \<open>Reading a property: the value of the own property, \<^verbatim>\<open>undefined\<close> when there is none.\<close>

definition get_prop :: "props \<Rightarrow> string \<Rightarrow> jsval" where
  "get_prop obj k = (case map_of obj k of None \<Rightarrow> JUndefined | Some v \<Rightarrow> v)"

text \<open>
  Writing a property: an existing own property keeps its place and takes the new value, a
  new one is added at the end.
\<close>

fun set_prop :: "props \<Rightarrow> string \<Rightarrow> jsval \<Rightarrow> props" where
  "set_prop [] k v = [(k, v)]"
| "set_prop ((k', v') # obj) k v =
     (if k' = k then (k, v) # obj else (k', v') # set_prop obj k v)"

text \<open>Whether an object has an own property of a name.\<close>

definition has_prop :: "props \<Rightarrow> string \<Rightarrow> bool" where
  "has_prop obj k = (case map_of obj k of None \<Rightarrow> False | Some v \<Rightarrow> True)"

section \<open>PushChannelSubscription\<close>

text \<open>
  \<^verbatim>\<open>src/common/lib/types/pushchannelsubscription.ts\<close>. An instance is its own properties
  and its prototype. The class declares \<^verbatim>\<open>channel\<close>, \<^verbatim>\<open>deviceId\<close> and \<^verbatim>\<open>clientId\<close> without
  initialisers, so a new instance has no property of its own, and its prototype is the one
  of the class (\<open>None\<close>); \<open>Some v\<close> is an instance whose prototype has been replaced by the
  value \<open>v\<close>, an object or \<^verbatim>\<open>null\<close>.
\<close>

record PushChannelSubscription =
  own :: props
  prototype :: "jsval option"

definition new_PushChannelSubscription :: PushChannelSubscription where
  "new_PushChannelSubscription = \<lparr>own = [], prototype = None\<rparr>"

text \<open>
  The reads \<^verbatim>\<open>this.channel\<close>, \<^verbatim>\<open>this.deviceId\<close> and \<^verbatim>\<open>this.clientId\<close>. A read takes the
  instance's own property; without one it goes to the prototype. Neither the class nor
  any built-in object (array, error, function, \<^verbatim>\<open>Object.prototype\<close>) has a property of one
  of these three names, so only an object that replaced the prototype can supply it.
\<close>

datatype field = channel_field | deviceId_field | clientId_field

fun field_name :: "field \<Rightarrow> string" where
  "field_name channel_field = ''channel''"
| "field_name deviceId_field = ''deviceId''"
| "field_name clientId_field = ''clientId''"

definition read_field :: "PushChannelSubscription \<Rightarrow> field \<Rightarrow> jsval" where
  "read_field this f =
     (case map_of (own this) (field_name f) of
        Some v \<Rightarrow> v
      | None \<Rightarrow>
          (case prototype this of
             Some (JObj kvs) \<Rightarrow> get_prop kvs (field_name f)
           | _ \<Rightarrow> JUndefined))"


text \<open>
  \<^verbatim>\<open>Object.assign(target, source)\<close> writes every own property of the source to the target,
  in the source's order, with the assignment \<^verbatim>\<open>target[k] = v\<close> of the language, and throws
  when an assignment is refused. \<open>Set_property\<close> is that assignment on an instance:
  \<^item> a property that the instance has of its own takes the new value;
  \<^item> otherwise the prototype chain decides. A property of that name found on a
    replacing object makes the assignment create an own property of the instance. A
    function as prototype has the read-only properties \<^verbatim>\<open>name\<close> and \<^verbatim>\<open>length\<close> and the
    poisoned \<^verbatim>\<open>caller\<close> and \<^verbatim>\<open>arguments\<close>: assigning to one of them throws a \<open>TypeError\<close>
    (whose message is the engine's).
  \<^item> where the chain ends in \<^verbatim>\<open>Object.prototype\<close>, that is unless the prototype was
    replaced by \<^verbatim>\<open>null\<close>, the name \<^verbatim>\<open>__proto__\<close> is found there as an accessor: the
    assignment creates no property, it replaces the prototype of the instance when the
    value is an object or \<^verbatim>\<open>null\<close> and does nothing for any other value;
  \<^item> in every other case the assignment creates an own property of the instance.
\<close>

fun is_Object :: "jsval \<Rightarrow> bool" where
  "is_Object (JArr xs) = True"
| "is_Object (JObj kvs) = True"
| "is_Object (JFun f) = True"
| "is_Object JNoop = True"
| "is_Object JPromiseCallback = True"
| "is_Object (JErr e) = True"
| "is_Object JUndefined = False"
| "is_Object JNull = False"
| "is_Object (JBool b) = False"
| "is_Object (JNum n) = False"
| "is_Object (JStr s) = False"

definition read_only_of_function :: "string \<Rightarrow> bool" where
  "read_only_of_function k =
     (k = ''name'' \<or> k = ''length'' \<or> k = ''caller'' \<or> k = ''arguments'')"

definition write_own :: "PushChannelSubscription \<Rightarrow> string \<Rightarrow> jsval \<Rightarrow> PushChannelSubscription" where
  "write_own target k v = target\<lparr>own := set_prop (own target) k v\<rparr>"

definition at_Object_prototype ::
  "PushChannelSubscription \<Rightarrow> string \<Rightarrow> jsval \<Rightarrow> PushChannelSubscription" where
  "at_Object_prototype target k v =
     (if k = ''__proto__''
      then (if is_Object v \<or> v = JNull then target\<lparr>prototype := Some v\<rparr> else target)
      else write_own target k v)"

definition Set_property ::
  "PushChannelSubscription \<Rightarrow> string \<Rightarrow> jsval \<Rightarrow> js_error + PushChannelSubscription" where
  "Set_property target k v =
     (if has_prop (own target) k then Inr (write_own target k v)
      else
        case prototype target of
          None \<Rightarrow> Inr (at_Object_prototype target k v)
        | Some p \<Rightarrow>
            (case p of
               JNull \<Rightarrow> Inr (write_own target k v)
             | JObj kvs \<Rightarrow>
                 if has_prop kvs k then Inr (write_own target k v)
                 else Inr (at_Object_prototype target k v)
             | _ \<Rightarrow>
                 if typeof p = ''function'' \<and> read_only_of_function k
                 then Inl (TypeError ''Cannot assign to read only property'')
                 else Inr (at_Object_prototype target k v)))"

fun Object_assign ::
  "PushChannelSubscription \<Rightarrow> props \<Rightarrow> js_error + PushChannelSubscription" where
  "Object_assign target [] = Inr target"
| "Object_assign target ((k, v) # source) =
     (case Set_property target k v of
        Inl e \<Rightarrow> Inl e
      | Inr target' \<Rightarrow> Object_assign target' source)"

definition fromValues :: "props \<Rightarrow> js_error + PushChannelSubscription" where
  "fromValues values = Object_assign new_PushChannelSubscription values"

text \<open>
  \<^verbatim>\<open>fromValuesArray\<close>: \<^verbatim>\<open>new Array(count)\<close> is an array of \<open>count\<close> empty slots (\<open>None\<close>), and
  the loop fills slot \<open>i\<close> from \<open>values[i]\<close> for \<open>i = 0, \<dots>, count - 1\<close>. An error thrown by
  \<^verbatim>\<open>fromValues\<close> leaves the loop and the function.
\<close>

function fromValuesArray_loop ::
  "props list \<Rightarrow> nat \<Rightarrow> nat \<Rightarrow> PushChannelSubscription option list
     \<Rightarrow> js_error + PushChannelSubscription option list" where
  "fromValuesArray_loop values count i result =
     (if i < count
      then (case fromValues (values ! i) of
              Inl e \<Rightarrow> Inl e
            | Inr s \<Rightarrow> fromValuesArray_loop values count (i + 1) (result[i := Some s]))
      else Inr result)"
  by pat_completeness auto
termination
  by (relation "measure (\<lambda>(values, count, i, result). count - i)") auto

definition fromValuesArray :: "props list \<Rightarrow> js_error + PushChannelSubscription option list" where
  "fromValuesArray values =
     (let count = length values; result = replicate count None
      in fromValuesArray_loop values count 0 result)"

section \<open>Channels\<close>

text \<open>
  The class \<^verbatim>\<open>Channels\<close> of \<^verbatim>\<open>baseclient.ts\<close>. Its field \<^verbatim>\<open>all\<close> is an object without
  prototype (\<^verbatim>\<open>Object.create(null)\<close>) used as a dictionary from names to \<^verbatim>\<open>Channel\<close>
  objects: a partial map. A \<^verbatim>\<open>Channel\<close> object is a pair of its identity (the reference
  that \<^verbatim>\<open>get\<close> hands out) and its current state; \<open>fresh\<close> is the identity that the next
  \<^verbatim>\<open>new Channel\<close> receives.

  The class \<^verbatim>\<open>Channel\<close> itself lives in \<^verbatim>\<open>./channel\<close>, so its constructor and its method
  \<^verbatim>\<open>setOptions\<close> are parameters (\<open>new_Channel\<close>, \<open>setOptions\<close>); both may throw. The
  constructor's first argument, \<^verbatim>\<open>this.client\<close>, is the same for every channel of one set
  and is part of \<open>new_Channel\<close>. The coercion \<^verbatim>\<open>String(name)\<close> of the language is the
  parameter \<open>String_of\<close>; on a string it is the identity.
\<close>

record 'c Channels =
  all :: "string \<rightharpoonup> nat \<times> 'c"
  fresh :: nat

definition Channels_constructor :: "'c Channels" where
  "Channels_constructor = \<lparr>all = Map.empty, fresh = 0\<rparr>"

definition Channels_get ::
  "('n \<Rightarrow> string) \<Rightarrow> (string \<Rightarrow> jsval \<Rightarrow> js_error + 'c) \<Rightarrow> ('c \<Rightarrow> jsval \<Rightarrow> js_error + 'c)
     \<Rightarrow> 'c Channels \<Rightarrow> 'n \<Rightarrow> jsval \<Rightarrow> js_error + nat \<times> 'c Channels" where
  "Channels_get String_of new_Channel setOptions this name channelOptions =
     (let name = String_of name in
      case all this name of
        None \<Rightarrow>
          (case new_Channel name channelOptions of
             Inl e \<Rightarrow> Inl e
           | Inr state \<Rightarrow>
               Inr (fresh this,
                    this\<lparr>all := (all this)(name \<mapsto> (fresh this, state)),
                         fresh := Suc (fresh this)\<rparr>))
      | Some (channel, state) \<Rightarrow>
          if truthy channelOptions
          then (case setOptions state channelOptions of
                  Inl e \<Rightarrow> Inl e
                | Inr state' \<Rightarrow> Inr (channel, this\<lparr>all := (all this)(name \<mapsto> (channel, state'))\<rparr>))
          else Inr (channel, this))"

definition Channels_release :: "('n \<Rightarrow> string) \<Rightarrow> 'c Channels \<Rightarrow> 'n \<Rightarrow> 'c Channels" where
  "Channels_release String_of this name = this\<lparr>all := (all this)(String_of name := None)\<rparr>"

text \<open>Every stored channel was handed out before: its identity is below \<open>fresh\<close>.\<close>

definition Channels_inv :: "'c Channels \<Rightarrow> bool" where
  "Channels_inv this = (\<forall>name channel state. all this name = Some (channel, state) \<longrightarrow> channel < fresh this)"

section \<open>Strings\<close>

text \<open>
  The two string operations that \<^verbatim>\<open>baseclient.ts\<close> uses. A character is a code below 256
  (the Latin-1 range); the upper-case letters there are \<open>A\<close> to \<open>Z\<close> and the codes 192 to
  222 without 215, and each differs from its lower-case letter by the bit of weight 32.
\<close>

definition toLowerCase_char :: "char \<Rightarrow> char" where
  "toLowerCase_char c =
     (let n = (of_char c :: nat)
      in if (65 \<le> n \<and> n \<le> 90) \<or> (192 \<le> n \<and> n \<le> 222 \<and> n \<noteq> 215)
         then (case c of Char b0 b1 b2 b3 b4 b5 b6 b7 \<Rightarrow> Char b0 b1 b2 b3 b4 True b6 b7)
         else c)"

definition toLowerCase :: "string \<Rightarrow> string" where
  "toLowerCase s = map toLowerCase_char s"

text \<open>The class \<^verbatim>\<open>\s\<close> of a regular expression, on codes below 256.\<close>

definition isSpace :: "char \<Rightarrow> bool" where
  "isSpace c = ((of_char c :: nat) \<in> {9, 10, 11, 12, 13, 32, 160})"

text \<open>
  \<^verbatim>\<open>key.match(/^([^:\s]+):([^:.\s]+)$/)\<close>: the two groups of the match, or \<open>None\<close> for
  \<^verbatim>\<open>null\<close>. The first group cannot contain a colon, so it is the longest prefix of
  characters that are neither a colon nor white space; a colon must follow it, and what
  follows the colon must be non-empty and free of colons, dots and white space up to the
  end of the string.
\<close>

definition keyMatch :: "string \<Rightarrow> (string \<times> string) option" where
  "keyMatch k =
     (let name = takeWhile (\<lambda>c. c \<noteq> CHR '':'' \<and> \<not> isSpace c) k;
          rest = drop (length name) k
      in case rest of
           [] \<Rightarrow> None
         | c # secret \<Rightarrow>
             if name \<noteq> [] \<and> c = CHR '':'' \<and> secret \<noteq> []
                \<and> list_all (\<lambda>c. c \<noteq> CHR '':'' \<and> c \<noteq> CHR ''.'' \<and> \<not> isSpace c) secret
             then Some (name, secret) else None)"

text \<open>The decimal numeral of a number, as string concatenation produces it.\<close>

fun decimal :: "nat \<Rightarrow> string" where
  "decimal n =
     (if n < 10 then [''0123456789'' ! n]
      else decimal (n div 10) @ [''0123456789'' ! (n mod 10)])"

declare decimal.simps [simp del]

section \<open>BaseClient: data\<close>

type_synonym header_map = "(string \<times> string) list"

datatype Format = msgpack | json

text \<open>
  The fields of \<^verbatim>\<open>NormalisedClientOptions\<close> that \<^verbatim>\<open>baseclient.ts\<close> reads or writes. The
  constructor tests \<^verbatim>\<open>'clientId' in normalOptions\<close> and then the runtime type of the
  property, so \<open>clientId\<close> is \<open>None\<close> when the property is absent and holds any value
  otherwise. The other fields have their declared types; \<open>None\<close> is \<^verbatim>\<open>undefined\<close>.
\<close>

record NormalisedClientOptions =
  key :: "string option"
  keyName :: "string option"
  keySecret :: "string option"
  clientId :: "jsval option"
  useBinaryProtocol :: bool
  headers :: "header_map option"

record IHttp =
  supportsLinkHeaders :: bool

record fallback =
  host :: string
  validUntil :: int

text \<open>
  \<open>Difference time now\<close> is the number \<^verbatim>\<open>time - Utils.now()\<close>, kept as its two operands:
  the left one is whatever the response held.
\<close>

datatype offset = Difference jsval int

record ('a, 'p, 'c) BaseClient =
  options :: NormalisedClientOptions
  currentFallback :: "fallback option"
  serverTimeOffset :: "offset option"
  http :: IHttp
  auth :: 'a
  channels :: "'c Channels"
  push :: 'p

text \<open>
  What \<^verbatim>\<open>baseclient.ts\<close> imports and is not part of it: \<^verbatim>\<open>Defaults\<close>, \<^verbatim>\<open>Utils\<close>,
  \<^verbatim>\<open>Platform\<close>, the classes \<^verbatim>\<open>Auth\<close> and \<^verbatim>\<open>Push\<close>, and the encoders and decoders. Each is a
  parameter, collected in one record; a function that may throw returns a sum. The
  constructors of \<^verbatim>\<open>Auth\<close> and \<^verbatim>\<open>Push\<close> receive the client under construction, which at that
  point consists of the normalised options and the HTTP transport. The two encoders return
  a value for every value of \<open>jsval\<close>; \<^verbatim>\<open>JSON.parse\<close> throws on a text that is not JSON.
\<close>

record ('o, 'a, 'p) Environment =
  objectifyOptions :: "jsval \<Rightarrow> 'o"
  normaliseOptions :: "'o \<Rightarrow> js_error + NormalisedClientOptions"
  new_Http :: "NormalisedClientOptions \<Rightarrow> js_error + IHttp"
  new_Auth :: "NormalisedClientOptions \<Rightarrow> IHttp \<Rightarrow> js_error + 'a"
  new_Push :: "NormalisedClientOptions \<Rightarrow> IHttp \<Rightarrow> js_error + 'p"
  getHttpScheme :: "NormalisedClientOptions \<Rightarrow> string"
  getPort :: "NormalisedClientOptions \<Rightarrow> bool \<Rightarrow> nat"
  defaultGetHeaders :: "NormalisedClientOptions \<Rightarrow> (Format \<times> int) option \<Rightarrow> header_map"
  defaultPostHeaders :: "NormalisedClientOptions \<Rightarrow> (Format \<times> int) option \<Rightarrow> header_map"
  mixin :: "header_map \<Rightarrow> header_map option \<Rightarrow> header_map"
  JSON_stringify :: "jsval \<Rightarrow> jsval"
  JSON_parse :: "jsval \<Rightarrow> js_error + jsval"
  msgpack_encode :: "jsval \<Rightarrow> jsval"
  Http_methods :: "string list"
  Http_methodsWithBody :: "string list"

text \<open>
  Modelled from the spec: \<^verbatim>\<open>Utils.arrIn\<close> is not part of \<^verbatim>\<open>baseclient.ts\<close>; it decides
  whether a method is in the supported HTTP method set.
\<close>

definition arrIn :: "'x list \<Rightarrow> 'x \<Rightarrow> bool" where
  "arrIn arr val = (val \<in> set arr)"

text \<open>
  Modelled from the spec: the constant \<^verbatim>\<open>HttpMethods.Get\<close> is declared outside
  \<^verbatim>\<open>baseclient.ts\<close>; \<^verbatim>\<open>request\<close> compares a value of that type with \<^verbatim>\<open>'get'\<close>.
\<close>

definition HttpMethods_Get :: string where
  "HttpMethods_Get = ''get''"


section \<open>BaseClient: construction\<close>

text \<open>
  The constructor of \<^verbatim>\<open>BaseClient\<close>. Every \<^verbatim>\<open>throw\<close> is a result \<open>Inl\<close>, and a client exists
  only as a result \<open>Inr\<close>. The calls of \<^verbatim>\<open>Logger\<close> configure and write the log and are left
  out. In the message of the second \<open>clientId\<close> error the apostrophe, the character U+2019
  in the source, is written as the code 39.
\<close>

definition clientId_reserved :: string where
  "clientId_reserved =
     ''Can'' @ [CHR 0x27] @ ''t use '' @ [CHR 0x22] @ ''*'' @ [CHR 0x22]
     @ '' as a clientId as that string is reserved. (To change the default token request ''
     @ ''behaviour to use a wildcard clientId, use {defaultTokenParams: {clientId: ''
     @ [CHR 0x22] @ ''*'' @ [CHR 0x22] @ ''}})''"

definition BaseClient_constructor ::
  "('o, 'a, 'p) Environment \<Rightarrow> jsval \<Rightarrow> js_error + ('a, 'p, 'c) BaseClient" where
  "BaseClient_constructor E opts =
     (if \<not> truthy opts then Inl (Error ''no options provided'')
      else
        let optionsObj = objectifyOptions E opts in
        case normaliseOptions E optionsObj of
          Inl e \<Rightarrow> Inl e
        | Inr normalOptions \<Rightarrow>
            (case (case key normalOptions of
                     None \<Rightarrow> Inr normalOptions
                   | Some k \<Rightarrow>
                       if k \<noteq> []
                       then (case keyMatch k of
                               None \<Rightarrow> Inl (ErrorInfo ''invalid key parameter'' 40400 404)
                             | Some (name, secret) \<Rightarrow>
                                 Inr (normalOptions\<lparr>keyName := Some name, keySecret := Some secret\<rparr>))
                       else Inr normalOptions) of
               Inl e \<Rightarrow> Inl e
             | Inr normalOptions \<Rightarrow>
                 (case (case clientId normalOptions of
                          None \<Rightarrow> None
                        | Some v \<Rightarrow>
                            if \<not> (typeof v = ''string'' \<or> v = JNull)
                            then Some (ErrorInfo ''clientId must be either a string or null'' 40012 400)
                            else if v = JStr ''*''
                            then Some (ErrorInfo clientId_reserved 40012 400)
                            else None) of
                    Some e \<Rightarrow> Inl e
                  | None \<Rightarrow>
                      (case new_Http E normalOptions of
                         Inl e \<Rightarrow> Inl e
                       | Inr h \<Rightarrow>
                           (case new_Auth E normalOptions h of
                              Inl e \<Rightarrow> Inl e
                            | Inr a \<Rightarrow>
                                (case new_Push E normalOptions h of
                                   Inl e \<Rightarrow> Inl e
                                 | Inr p \<Rightarrow>
                                     Inr \<lparr>options = normalOptions,
                                          currentFallback = None,
                                          serverTimeOffset = None,
                                          http = h,
                                          auth = a,
                                          channels = Channels_constructor,
                                          push = p\<rparr>))))))"

definition baseUri :: "('o, 'a, 'p) Environment \<Rightarrow> ('a, 'p, 'c) BaseClient \<Rightarrow> string \<Rightarrow> string" where
  "baseUri E this h =
     getHttpScheme E (options this) @ h @ '':'' @ decimal (getPort E (options this) False)"

section \<open>BaseClient: what a call does\<close>

text \<open>
  A call of \<^verbatim>\<open>stats\<close>, \<^verbatim>\<open>time\<close> or \<^verbatim>\<open>request\<close> hands work to another component and returns
  at once; the response arrives later, at a callback. The model separates the two: a call
  yields an \<open>outcome\<close> (what it returns or throws, and the calls it has issued), and the
  completion of an issued call is a function of its own.

  The callbacks are values: \<open>JFun f\<close> is a function of the caller.
\<close>

datatype bodyHandler = stats_bodyHandler | request_bodyHandler bool

record PaginatedResource =
  pr_path :: string
  pr_headers :: header_map
  pr_envelope :: "Format option"
  pr_bodyHandler :: bodyHandler
  useHttpPaginatedResponse :: bool

text \<open>
  \<open>Paginated r m args\<close> is the call \<^verbatim>\<open>r[m](args)\<close> on a new \<^verbatim>\<open>PaginatedResource\<close>;
  \<open>Http_do m uri hs body params cb\<close> is the call \<^verbatim>\<open>this.http.do(m, this, uri, hs, body,
  params, handler)\<close> of \<^verbatim>\<open>time\<close>, where \<open>cb\<close> is the \<^verbatim>\<open>_callback\<close> that the handler has
  captured.
\<close>

datatype action =
    Paginated (resource: PaginatedResource) (method_name: string) (arguments: "jsval list")
  | Http_do (do_method: string) (do_uri: "string \<Rightarrow> string") (do_headers: header_map)
      (do_body: jsval) (do_params: jsval) (do_callback: jsval)

datatype promise = Pending "action list" | Rejected js_error

datatype outcome =
    Returns_promise promise
  | Returns_undefined "action list"
  | Throws js_error

text \<open>The calls that an outcome has issued.\<close>

fun issued :: "outcome \<Rightarrow> action list" where
  "issued (Returns_promise (Pending as)) = as"
| "issued (Returns_promise (Rejected e)) = []"
| "issued (Returns_undefined as) = as"
| "issued (Throws e) = []"

text \<open>
  Modelled from the spec: \<^verbatim>\<open>Utils.promisify\<close> is not part of \<^verbatim>\<open>baseclient.ts\<close>. The spec
  gives every operation one asynchronous result, a promise that completes with the
  operation's result or with its failure. \<^verbatim>\<open>Utils.promisify(this, name, args)\<close> is that
  promise: it runs \<^verbatim>\<open>this[name]\<close> on \<open>args\<close> followed by a callback of its own; an error
  thrown by that run rejects the promise, and otherwise the promise is pending until the
  callback is called, with an error (rejection) or with a result (fulfilment). The
  argument of \<open>promisify\<close> is the outcome of that run.
\<close>

definition promisify :: "outcome \<Rightarrow> promise" where
  "promisify run = (case run of Throws e \<Rightarrow> Rejected e | _ \<Rightarrow> Pending (issued run))"




text \<open>
  \<^verbatim>\<open>stats(params, callback)\<close>. Without a callback the method looks at the runtime type of
  \<open>params\<close>: a function there is taken as the callback; anything else goes to
  \<^verbatim>\<open>Utils.promisify(this, 'stats', [params])\<close>, which calls the method again.
  \<open>stats_issue\<close> is the method from \<^verbatim>\<open>const headers\<close> on, after its arguments are resolved.
\<close>

definition stats_issue ::
  "('o, 'a, 'p) Environment \<Rightarrow> ('a, 'p, 'c) BaseClient \<Rightarrow> jsval \<Rightarrow> jsval \<Rightarrow> outcome" where
  "stats_issue E this params callback =
     (let hs = defaultGetHeaders E (options this) None;
          format = (if useBinaryProtocol (options this) then msgpack else json);
          envelope = (if supportsLinkHeaders (http this) then None else Some format);
          hs = mixin E hs (headers (options this))
      in Returns_undefined
           [Paginated
              \<lparr>pr_path = ''/stats'', pr_headers = hs, pr_envelope = envelope,
               pr_bodyHandler = stats_bodyHandler, useHttpPaginatedResponse = False\<rparr>
              ''get'' [params, callback]])"

function stats ::
  "('o, 'a, 'p) Environment \<Rightarrow> ('a, 'p, 'c) BaseClient \<Rightarrow> jsval \<Rightarrow> jsval \<Rightarrow> outcome" where
  "stats E this params callback =
     (if callback = JUndefined
      then (if typeof params = ''function''
            then stats_issue E this JNull params
            else Returns_promise (promisify (stats E this params JPromiseCallback)))
      else stats_issue E this params callback)"
  by pat_completeness auto
termination
  by (relation "measure (\<lambda>(E, this, params, callback). if callback = JUndefined then 1 else 0)")
     auto

text \<open>
  \<^verbatim>\<open>time(params, callback)\<close>, with the same treatment of its two arguments. \<open>time_issue\<close>
  is the method from \<^verbatim>\<open>const _callback\<close> on, and \<open>the_callback\<close> is \<^verbatim>\<open>_callback\<close>.
\<close>

definition time_issue ::
  "('o, 'a, 'p) Environment \<Rightarrow> ('a, 'p, 'c) BaseClient \<Rightarrow> jsval \<Rightarrow> jsval \<Rightarrow> outcome" where
  "time_issue E this params callback =
     (let the_callback = (if truthy callback then callback else JNoop);
          hs = defaultGetHeaders E (options this) None;
          hs = (case headers (options this) of
                  Some h \<Rightarrow> mixin E hs (Some h)
                | None \<Rightarrow> hs);
          timeUri = (\<lambda>h. baseUri E this h @ ''/time'')
      in Returns_undefined [Http_do HttpMethods_Get timeUri hs JNull params the_callback])"

function time ::
  "('o, 'a, 'p) Environment \<Rightarrow> ('a, 'p, 'c) BaseClient \<Rightarrow> jsval \<Rightarrow> jsval \<Rightarrow> outcome" where
  "time E this params callback =
     (if callback = JUndefined
      then (if typeof params = ''function''
            then time_issue E this JNull params
            else Returns_promise (promisify (time E this params JPromiseCallback)))
      else time_issue E this params callback)"
  by pat_completeness auto
termination
  by (relation "measure (\<lambda>(E, this, params, callback). if callback = JUndefined then 1 else 0)")
     auto

text \<open>
  The handler that \<^verbatim>\<open>time\<close> gives to \<^verbatim>\<open>this.http.do\<close>, applied to what the transport reports:
  \<open>err\<close>, \<open>res\<close> and \<open>unpacked\<close> (the response headers are not used). It either calls
  \<^verbatim>\<open>_callback\<close> or an error escapes from it; \<open>now\<close> is the value of \<^verbatim>\<open>Utils.now()\<close>.
  \<open>element0\<close> is the property read \<^verbatim>\<open>res[0]\<close>, which throws on \<^verbatim>\<open>null\<close> and \<^verbatim>\<open>undefined\<close>,
  and \<open>time_value\<close> is the local constant \<^verbatim>\<open>time\<close>.
\<close>

datatype completion = Calls jsval "jsval list" | Raises js_error

fun element0 :: "jsval \<Rightarrow> js_error + jsval" where
  "element0 JUndefined = Inl (TypeError ''Cannot read properties of undefined'')"
| "element0 JNull = Inl (TypeError ''Cannot read properties of null'')"
| "element0 (JArr xs) = Inr (case xs of [] \<Rightarrow> JUndefined | x # _ \<Rightarrow> x)"
| "element0 (JStr s) = Inr (case s of [] \<Rightarrow> JUndefined | c # _ \<Rightarrow> JStr [c])"
| "element0 (JObj kvs) = Inr (get_prop kvs ''0'')"
| "element0 (JBool b) = Inr JUndefined"
| "element0 (JNum n) = Inr JUndefined"
| "element0 (JFun f) = Inr JUndefined"
| "element0 JNoop = Inr JUndefined"
| "element0 JPromiseCallback = Inr JUndefined"
| "element0 (JErr e) = Inr JUndefined"

definition time_handler ::
  "('o, 'a, 'p) Environment \<Rightarrow> ('a, 'p, 'c) BaseClient \<Rightarrow> int \<Rightarrow> jsval
     \<Rightarrow> jsval \<Rightarrow> jsval \<Rightarrow> bool \<Rightarrow> completion \<times> ('a, 'p, 'c) BaseClient" where
  "time_handler E this now the_callback err res unpacked =
     (if truthy err then (Calls the_callback [err], this)
      else
        case (if \<not> unpacked then JSON_parse E res else Inr res) of
          Inl e \<Rightarrow> (Raises e, this)
        | Inr res \<Rightarrow>
            (case element0 res of
               Inl e \<Rightarrow> (Raises e, this)
             | Inr time_value \<Rightarrow>
                 if \<not> truthy time_value
                 then (Calls the_callback
                         [JErr (ErrorInfo ''Internal error (unexpected result type from GET /time)''
                                  50000 500)],
                       this)
                 else (Calls the_callback [JNull, time_value],
                       this\<lparr>serverTimeOffset := Some (Difference time_value now)\<rparr>)))"

text \<open>
  \<^verbatim>\<open>request(method, path, version, params, body, customHeaders, callback)\<close>.
  \<open>the_method\<close> is \<^verbatim>\<open>_method\<close>.
\<close>

function request ::
  "('o, 'a, 'p) Environment \<Rightarrow> ('a, 'p, 'c) BaseClient \<Rightarrow> string \<Rightarrow> string \<Rightarrow> int \<Rightarrow> jsval
     \<Rightarrow> jsval \<Rightarrow> header_map option \<Rightarrow> jsval \<Rightarrow> outcome" where
  "request E this method path version params body customHeaders callback =
     (let useBinary = useBinaryProtocol (options this);
          encoder = (if useBinary then msgpack_encode E else JSON_stringify E);
          format = (if useBinary then msgpack else json);
          envelope = (if supportsLinkHeaders (http this) then None else Some format);
          params = (if truthy params then params else JObj []);
          the_method = toLowerCase method;
          hs = (if the_method = ''get''
                then defaultGetHeaders E (options this) (Some (format, version))
                else defaultPostHeaders E (options this) (Some (format, version)))
      in if callback = JUndefined
         then Returns_promise
                (promisify
                   (request E this method path version params body customHeaders
                      JPromiseCallback))
         else
           let body = (if typeof body \<noteq> ''string'' then encoder body else body);
               hs = mixin E hs (headers (options this));
               hs = (case customHeaders of
                       Some h \<Rightarrow> mixin E hs (Some h)
                     | None \<Rightarrow> hs);
               paginatedResource =
                 \<lparr>pr_path = path, pr_headers = hs, pr_envelope = envelope,
                  pr_bodyHandler = request_bodyHandler useBinary,
                  useHttpPaginatedResponse = True\<rparr>
           in if \<not> arrIn (Http_methods E) the_method
              then Throws (ErrorInfo (''Unsupported method '' @ the_method) 40500 405)
              else if arrIn (Http_methodsWithBody E) the_method
              then Returns_undefined [Paginated paginatedResource the_method [params, body, callback]]
              else Returns_undefined [Paginated paginatedResource the_method [params, callback]])"
  by pat_completeness auto
termination
  by (relation "measure (\<lambda>(E, this, method, path, version, params, body, customHeaders, callback).
                  if callback = JUndefined then 1 else 0)")
     auto

declare stats.simps [simp del] time.simps [simp del] request.simps [simp del]



section \<open>Several clients\<close>

text \<open>
  Client instances live in a store, addressed by their references. An operation is
  performed on one instance: a call of one of its methods, the arrival of the response to
  an earlier \<^verbatim>\<open>time\<close>, or a call on its channel set. \<open>perform\<close> gives the state in which the
  operation leaves that instance: \<^verbatim>\<open>stats\<close>, \<^verbatim>\<open>time\<close> and \<^verbatim>\<open>request\<close> assign no field, the
  handler of \<^verbatim>\<open>time\<close> assigns \<^verbatim>\<open>this.serverTimeOffset\<close>, and the channel set changes
  \<^verbatim>\<open>this.channels\<close>.
\<close>

datatype 'n operation =
    Stats jsval jsval
  | Time jsval jsval
  | Request string string int jsval jsval "header_map option" jsval
  | Time_response int jsval jsval jsval bool
  | Channels_get_call 'n jsval
  | Channels_release_call 'n

fun perform ::
  "('o, 'a, 'p) Environment \<Rightarrow> ('n \<Rightarrow> string) \<Rightarrow> (string \<Rightarrow> jsval \<Rightarrow> js_error + 'c)
     \<Rightarrow> ('c \<Rightarrow> jsval \<Rightarrow> js_error + 'c) \<Rightarrow> ('a, 'p, 'c) BaseClient \<Rightarrow> 'n operation
     \<Rightarrow> ('a, 'p, 'c) BaseClient" where
  "perform E S N U this (Stats params callback) = this"
| "perform E S N U this (Time params callback) = this"
| "perform E S N U this (Request method path version params body customHeaders callback) = this"
| "perform E S N U this (Time_response now the_callback err res unpacked) =
     snd (time_handler E this now the_callback err res unpacked)"
| "perform E S N U this (Channels_get_call name channelOptions) =
     (case Channels_get S N U (channels this) name channelOptions of
        Inl e \<Rightarrow> this
      | Inr (channel, chs) \<Rightarrow> this\<lparr>channels := chs\<rparr>)"
| "perform E S N U this (Channels_release_call name) =
     this\<lparr>channels := Channels_release S (channels this) name\<rparr>"

definition perform_on ::
  "('o, 'a, 'p) Environment \<Rightarrow> ('n \<Rightarrow> string) \<Rightarrow> (string \<Rightarrow> jsval \<Rightarrow> js_error + 'c)
     \<Rightarrow> ('c \<Rightarrow> jsval \<Rightarrow> js_error + 'c) \<Rightarrow> (nat \<rightharpoonup> ('a, 'p, 'c) BaseClient) \<Rightarrow> nat
     \<Rightarrow> 'n operation \<Rightarrow> (nat \<rightharpoonup> ('a, 'p, 'c) BaseClient)" where
  "perform_on E S N U clients i operation =
     (case clients i of
        None \<Rightarrow> clients
      | Some this \<Rightarrow> clients(i \<mapsto> perform E S N U this operation))"

section \<open>The HTTP request engine\<close>

text \<open>
  Modelled from the spec: the transport behind \<^verbatim>\<open>this.http.do\<close> (\<^verbatim>\<open>Platform.Http\<close>) is not
  part of \<^verbatim>\<open>baseclient.ts\<close>, which only declares the field \<^verbatim>\<open>_currentFallback\<close> and sets it to
  \<^verbatim>\<open>null\<close>. The spec's fallback algorithm: there is a primary host and an ordered list of
  fallback hosts; on a retryable failure the request is retried against the next untried
  host, up to a maximum number of attempts, and when the attempts are used up the last
  error is the result; a host that succeeded is preferred on subsequent calls until it
  fails or the cool-down expires. The preferred host and the instant at which its
  cool-down expires are the record \<^verbatim>\<open>_currentFallback\<close>.

  \<open>transport h\<close> is what one attempt against host \<open>h\<close> gives, and \<open>now\<close> is the time of the
  request. The result is the response or the error, the new value of \<^verbatim>\<open>_currentFallback\<close>,
  and the hosts attempted, in order. \<open>candidate_hosts\<close> is the host to attempt first and
  the hosts to fall back to.
\<close>

datatype attempt = Succeeds jsval | Fails_retryable js_error | Fails js_error

record fallback_policy =
  primaryHost :: string
  fallbackHosts :: "string list"
  maxAttempts :: nat
  fallbackRetryTimeout :: int

definition unexpired :: "fallback option \<Rightarrow> int \<Rightarrow> fallback option" where
  "unexpired current now =
     (case current of
        None \<Rightarrow> None
      | Some f \<Rightarrow> if now < validUntil f then Some f else None)"

definition candidate_hosts :: "fallback_policy \<Rightarrow> fallback option \<Rightarrow> string \<times> string list" where
  "candidate_hosts P current =
     (case current of
        None \<Rightarrow> (primaryHost P, fallbackHosts P)
      | Some f \<Rightarrow> (host f, removeAll (host f) (primaryHost P # fallbackHosts P)))"

fun attempt_hosts ::
  "(string \<Rightarrow> attempt) \<Rightarrow> fallback_policy \<Rightarrow> int \<Rightarrow> string \<Rightarrow> string list \<Rightarrow> fallback option
     \<Rightarrow> (js_error + jsval) \<times> fallback option \<times> string list" where
  "attempt_hosts transport P now h untried current =
     (case transport h of
        Succeeds response \<Rightarrow>
          (Inr response,
           (case current of
              Some f \<Rightarrow> Some f
            | None \<Rightarrow>
                if h = primaryHost P then None
                else Some \<lparr>host = h, validUntil = now + fallbackRetryTimeout P\<rparr>),
           [h])
      | Fails e \<Rightarrow> (Inl e, current, [h])
      | Fails_retryable e \<Rightarrow>
          (let current = (case current of
                            None \<Rightarrow> None
                          | Some f \<Rightarrow> if host f = h then None else Some f)
           in case untried of
                [] \<Rightarrow> (Inl e, current, [h])
              | h' # untried' \<Rightarrow>
                  (case attempt_hosts transport P now h' untried' current of
                     (r, current', attempted) \<Rightarrow> (r, current', h # attempted))))"

declare attempt_hosts.simps [simp del]

definition http_do ::
  "(string \<Rightarrow> attempt) \<Rightarrow> fallback_policy \<Rightarrow> int \<Rightarrow> fallback option
     \<Rightarrow> (js_error + jsval) \<times> fallback option \<times> string list" where
  "http_do transport P now current =
     (let current = unexpired current now in
      case candidate_hosts P current of
        (h, hs) \<Rightarrow> attempt_hosts transport P now h (take (maxAttempts P - 1) hs) current)"


section \<open>An environment for evaluation\<close>

text \<open>
  A small instance of the parameters, on which the model can be run. Options are given as
  an object and are taken over field by field; the transport supports link headers; the
  supported methods are the five of the REST interface. The two JSON functions are given
  on the few values and texts that the examples below use.
\<close>

definition example_JSON_stringify :: "jsval \<Rightarrow> jsval" where
  "example_JSON_stringify v =
     (case v of
        JUndefined \<Rightarrow> JUndefined
      | JNull \<Rightarrow> JStr ''null''
      | JArr [] \<Rightarrow> JStr ''[]''
      | _ \<Rightarrow> JStr ''{}'')"

definition example_JSON_parse :: "jsval \<Rightarrow> js_error + jsval" where
  "example_JSON_parse v =
     (if v = JStr ''null'' then Inr JNull
      else if v = JStr ''[]'' then Inr (JArr [])
      else if v = JStr ''{}'' then Inr (JObj [])
      else if v = JStr ''[1700000000000]'' then Inr (JArr [JNum 1700000000000])
      else Inl (SyntaxError ''Unexpected token''))"

definition example_normaliseOptions :: "jsval \<Rightarrow> js_error + NormalisedClientOptions" where
  "example_normaliseOptions v =
     (case v of
        JObj kvs \<Rightarrow>
          Inr \<lparr>key = (case map_of kvs ''key'' of Some (JStr k) \<Rightarrow> Some k | _ \<Rightarrow> None),
               keyName = None, keySecret = None,
               clientId = map_of kvs ''clientId'',
               useBinaryProtocol = False,
               headers = None\<rparr>
      | JStr k \<Rightarrow>
          Inr \<lparr>key = Some k, keyName = None, keySecret = None, clientId = None,
               useBinaryProtocol = False, headers = None\<rparr>
      | _ \<Rightarrow> Inl (ErrorInfo ''invalid options'' 40000 400))"

definition example_Environment :: "(jsval, unit, unit) Environment" where
  "example_Environment =
     \<lparr>objectifyOptions = (\<lambda>v. v),
      normaliseOptions = example_normaliseOptions,
      new_Http = (\<lambda>opts. Inr \<lparr>supportsLinkHeaders = True\<rparr>),
      new_Auth = (\<lambda>opts h. Inr ()),
      new_Push = (\<lambda>opts h. Inr ()),
      getHttpScheme = (\<lambda>opts. ''https://''),
      getPort = (\<lambda>opts tls. 443),
      defaultGetHeaders = (\<lambda>opts ps. [(''accept'', ''application/json'')]),
      defaultPostHeaders =
        (\<lambda>opts ps. [(''accept'', ''application/json''), (''content-type'', ''application/json'')]),
      mixin = (\<lambda>hs more. case more of None \<Rightarrow> hs | Some m \<Rightarrow> hs @ m),
      JSON_stringify = example_JSON_stringify,
      JSON_parse = example_JSON_parse,
      msgpack_encode = (\<lambda>v. JStr []),
      Http_methods = [''get'', ''delete'', ''post'', ''put'', ''patch''],
      Http_methodsWithBody = [''post'', ''put'', ''patch'']\<rparr>"

definition example_options :: NormalisedClientOptions where
  "example_options =
     \<lparr>key = Some ''appid.keyid:secret'', keyName = Some ''appid.keyid'', keySecret = Some ''secret'',
      clientId = None, useBinaryProtocol = False, headers = None\<rparr>"

definition example_client :: "(unit, unit, jsval) BaseClient" where
  "example_client =
     \<lparr>options = example_options,
      currentFallback = None,
      serverTimeOffset = None,
      http = \<lparr>supportsLinkHeaders = True\<rparr>,
      auth = (),
      channels = Channels_constructor,
      push = ()\<rparr>"

text \<open>
  A primary host with two fallback hosts, of which only the last one answers; the others
  time out.
\<close>

definition example_policy :: fallback_policy where
  "example_policy =
     \<lparr>primaryHost = ''rest.ably.io'',
      fallbackHosts = [''a.ably-realtime.com'', ''b.ably-realtime.com''],
      maxAttempts = 3,
      fallbackRetryTimeout = 600000\<rparr>"

definition example_transport :: "string \<Rightarrow> attempt" where
  "example_transport h =
     (if h = ''b.ably-realtime.com'' then Succeeds (JArr [JNum 1700000000000])
      else Fails_retryable (ErrorInfo ''timeout'' 50003 504))"

section \<open>Properties of PushChannelSubscription\<close>


text \<open>
  An own property \<^verbatim>\<open>__proto__\<close> of the record does not become a property of the instance:
  an object there replaces the prototype, through which the fields are then read, and a
  value that is neither an object nor \<^verbatim>\<open>null\<close> is ignored.
\<close>

lemma fromValues_proto:
  "fromValues [(''__proto__'', JObj [(''channel'', JStr ''news'')])]
     = Inr \<lparr>own = [], prototype = Some (JObj [(''channel'', JStr ''news'')])\<rparr>"
  "read_field \<lparr>own = [], prototype = Some (JObj [(''channel'', JStr ''news'')])\<rparr> channel_field
     = JStr ''news''"
  "fromValues [(''__proto__'', JNum 1), (''channel'', JStr ''news'')]
     = Inr \<lparr>own = [(''channel'', JStr ''news'')], prototype = None\<rparr>"
  by (simp_all add: fromValues_def new_PushChannelSubscription_def Set_property_def has_prop_def
        at_Object_prototype_def write_own_def read_field_def get_prop_def)



lemma fromValuesArray_loop_success:
  "i \<le> count \<Longrightarrow> count = length vs \<Longrightarrow> length result = count \<Longrightarrow>
   map fromValues (drop i vs) = map Inr ss \<Longrightarrow>
   fromValuesArray_loop vs count i result = Inr (take i result @ map Some ss)"
proof (induction vs count i result arbitrary: ss rule: fromValuesArray_loop.induct)
  case (1 vs count i result)
  show ?case
  proof (cases "i < count")
    case False
    with "1.prems" show ?thesis by simp
  next
    case True
    with "1.prems" have d: "drop i vs = vs ! i # drop (Suc i) vs"
      by (simp add: Cons_nth_drop_Suc)
    with "1.prems"(4) obtain s ss' where
      ss: "ss = s # ss'" and s: "fromValues (vs ! i) = Inr s"
      and rest: "map fromValues (drop (i + 1) vs) = map Inr ss'"
      by (cases ss) auto
    have "fromValuesArray_loop vs count (i + 1) (result[i := Some s])
            = Inr (take (i + 1) (result[i := Some s]) @ map Some ss')"
      using "1.IH" [OF True s _ "1.prems"(2) _ rest] True "1.prems"(3) by simp
    moreover have "take (i + 1) (result[i := Some s]) @ map Some ss'
                     = take i result @ map Some ss"
      using True "1.prems"(3) ss by (simp add: take_Suc_conv_app_nth)
    ultimately show ?thesis using True s by simp
  qed
qed

lemma fromValuesArray_loop_result:
  "fromValuesArray_loop vs count i result = Inr r \<Longrightarrow>
   i \<le> count \<Longrightarrow> count = length vs \<Longrightarrow> length result = count \<Longrightarrow>
   \<exists>ss. map fromValues (drop i vs) = map Inr ss \<and> r = take i result @ map Some ss"
proof (induction vs count i result arbitrary: r rule: fromValuesArray_loop.induct)
  case (1 vs count i result)
  show ?case
  proof (cases "i < count")
    case False
    with "1.prems" show ?thesis by simp
  next
    case True
    with "1.prems"(1) obtain s where s: "fromValues (vs ! i) = Inr s"
      and run: "fromValuesArray_loop vs count (i + 1) (result[i := Some s]) = Inr r"
      by (auto split: sum.splits)
    from "1.IH" [OF True s run _ "1.prems"(3)] True "1.prems"(4)
    obtain ss' where rest: "map fromValues (drop (i + 1) vs) = map Inr ss'"
      and r: "r = take (i + 1) (result[i := Some s]) @ map Some ss'"
      by auto
    from True "1.prems" have d: "drop i vs = vs ! i # drop (Suc i) vs"
      by (simp add: Cons_nth_drop_Suc)
    have "map fromValues (drop i vs) = map Inr (s # ss')"
      using d s rest by simp
    moreover have "r = take i result @ map Some (s # ss')"
      using r True "1.prems"(4) by (simp add: take_Suc_conv_app_nth)
    ultimately show ?thesis by blast
  qed
qed

lemma fromValuesArray_loop_error:
  "i \<le> j \<Longrightarrow> j < count \<Longrightarrow> count = length vs \<Longrightarrow>
   map fromValues (take (j - i) (drop i vs)) = map Inr ss \<Longrightarrow>
   fromValues (vs ! j) = Inl e \<Longrightarrow>
   fromValuesArray_loop vs count i result = Inl e"
proof (induction vs count i result arbitrary: ss rule: fromValuesArray_loop.induct)
  case (1 vs count i result)
  from "1.prems" have lt: "i < count" by simp
  show ?case
  proof (cases "i = j")
    case True
    with lt "1.prems"(5) show ?thesis by simp
  next
    case False
    with "1.prems" have ij: "i + 1 \<le> j" by simp
    from lt "1.prems"(3) have d: "drop i vs = vs ! i # drop (Suc i) vs"
      by (simp add: Cons_nth_drop_Suc)
    from ij have "j - i = Suc (j - (i + 1))" by simp
    with "1.prems"(4) d obtain s ss' where
      s: "fromValues (vs ! i) = Inr s"
      and rest: "map fromValues (take (j - (i + 1)) (drop (i + 1) vs)) = map Inr ss'"
      by (cases ss) auto
    from "1.IH" [OF lt s ij "1.prems"(2) "1.prems"(3) rest "1.prems"(5)] lt s
    show ?thesis by simp
  qed
qed

text \<open>
  Claim C10, as stated, does not hold for every input array: a record whose own property
  \<^verbatim>\<open>__proto__\<close> holds a function, followed by a property \<^verbatim>\<open>name\<close>, makes \<^verbatim>\<open>Object.assign\<close>
  throw, and \<^verbatim>\<open>fromValuesArray\<close> then returns no array.
\<close>

theorem fromValuesArray_counterexample:
  "fromValuesArray [[(''__proto__'', JFun 1), (''name'', JStr ''x'')]]
     = Inl (TypeError ''Cannot assign to read only property'')"
  by (simp add: fromValuesArray_def fromValues_def new_PushChannelSubscription_def
        Set_property_def has_prop_def at_Object_prototype_def read_only_of_function_def)

text \<open>
  Claim C10, amended. \<open>fromValuesArray\<close> maps \<open>fromValues\<close> over its input, from the first
  element on. When \<open>fromValues\<close> returns for every element, the result is the array of
  those results: it has the input's length, no slot is left empty, and slot \<open>i\<close> holds
  \<open>fromValues\<close> of the \<open>i\<close>-th input record; and every array that \<open>fromValuesArray\<close>
  returns is of this kind. When \<open>fromValues\<close> throws for an element and returns for all
  elements before it, \<open>fromValuesArray\<close> throws that error.
\<close>

theorem fromValuesArray_elementwise:
  "(map fromValues vs = map Inr ss \<longrightarrow> fromValuesArray vs = Inr (map Some ss))
   \<and> (fromValuesArray vs = Inr result \<longrightarrow>
        length result = length vs
        \<and> (\<exists>ss. map fromValues vs = map Inr ss \<and> result = map Some ss))
   \<and> (i < length vs \<and> map fromValues (take i vs) = map Inr ss' \<and> fromValues (vs ! i) = Inl e
        \<longrightarrow> fromValuesArray vs = Inl e)"
proof (intro conjI impI)
  have eq: "fromValuesArray vs
              = fromValuesArray_loop vs (length vs) 0 (replicate (length vs) None)"
    by (simp only: fromValuesArray_def Let_def)
  {
    assume "map fromValues vs = map Inr ss"
    then have "fromValuesArray_loop vs (length vs) 0 (replicate (length vs) None)
                 = Inr (take 0 (replicate (length vs) None) @ map Some ss)"
      by (intro fromValuesArray_loop_success) simp_all
    then show "fromValuesArray vs = Inr (map Some ss)"
      by (simp only: eq take_0 append_Nil)
  }
  {
    assume "fromValuesArray vs = Inr result"
    then have "fromValuesArray_loop vs (length vs) 0 (replicate (length vs) None) = Inr result"
      by (simp only: eq)
    then have "\<exists>ss. map fromValues (drop 0 vs) = map Inr ss
                 \<and> result = take 0 (replicate (length vs) None) @ map Some ss"
      by (rule fromValuesArray_loop_result) simp_all
    then obtain ss where ss: "map fromValues vs = map Inr ss" and r: "result = map Some ss"
      by auto
    from ss have "length ss = length vs"
      by (metis length_map)
    with r show "length result = length vs" by simp
    from ss r show "\<exists>ss. map fromValues vs = map Inr ss \<and> result = map Some ss" by blast
  }
  {
    assume a: "i < length vs \<and> map fromValues (take i vs) = map Inr ss'
               \<and> fromValues (vs ! i) = Inl e"
    have "fromValuesArray_loop vs (length vs) 0 (replicate (length vs) None) = Inl e"
    proof (rule fromValuesArray_loop_error [where j = i and ss = ss'])
      show "0 \<le> i" by simp
      show "i < length vs" using a by simp
      show "length vs = length vs" by simp
      show "map fromValues (take (i - 0) (drop 0 vs)) = map Inr ss'" using a by simp
      show "fromValues (vs ! i) = Inl e" using a by simp
    qed
    then show "fromValuesArray vs = Inl e"
      by (simp only: eq)
  }
qed

theorem fromValuesArray_elementwise_witness:
  "fromValuesArray [[(''channel'', JStr ''news'')], [(''deviceId'', JStr ''d1'')]]
     = Inr [Some \<lparr>own = [(''channel'', JStr ''news'')], prototype = None\<rparr>,
            Some \<lparr>own = [(''deviceId'', JStr ''d1'')], prototype = None\<rparr>]
   \<and> length [Some \<lparr>own = [(''channel'', JStr ''news'')], prototype = None\<rparr>,
              Some \<lparr>own = [(''deviceId'', JStr ''d1'')], prototype = None\<rparr>]
       = length [[(''channel'', JStr ''news'')], [(''deviceId'', JStr ''d1'')]]
   \<and> fromValuesArray
        [[(''channel'', JStr ''news'')], [(''__proto__'', JFun 1), (''name'', JStr ''x'')],
         [(''deviceId'', JStr ''d1'')]]
     = Inl (TypeError ''Cannot assign to read only property'')"
proof -
  let ?a = "[(''channel'', JStr ''news'')]"
  let ?b = "[(''deviceId'', JStr ''d1'')]"
  let ?bad = "[(''__proto__'', JFun 1), (''name'', JStr ''x'')]"
  let ?sa = "\<lparr>own = [(''channel'', JStr ''news'')], prototype = None\<rparr>"
  let ?sb = "\<lparr>own = [(''deviceId'', JStr ''d1'')], prototype = None\<rparr>"
  have a: "fromValues ?a = Inr ?sa"
    by (simp add: fromValues_def new_PushChannelSubscription_def Set_property_def has_prop_def
          at_Object_prototype_def write_own_def)
  have b: "fromValues ?b = Inr ?sb"
    by (simp add: fromValues_def new_PushChannelSubscription_def Set_property_def has_prop_def
          at_Object_prototype_def write_own_def)
  have bad: "fromValues ?bad = Inl (TypeError ''Cannot assign to read only property'')"
    by (simp add: fromValues_def new_PushChannelSubscription_def Set_property_def has_prop_def
          at_Object_prototype_def read_only_of_function_def)
  have ok: "fromValuesArray [?a, ?b] = Inr [Some ?sa, Some ?sb]"
    using fromValuesArray_elementwise [where vs = "[?a, ?b]" and ss = "[?sa, ?sb]"] a b
    by simp
  have len: "length [Some ?sa, Some ?sb] = length [?a, ?b]"
    using fromValuesArray_elementwise [where vs = "[?a, ?b]" and result = "[Some ?sa, Some ?sb]"] ok
    by simp
  have err: "fromValuesArray [?a, ?bad, ?b] = Inl (TypeError ''Cannot assign to read only property'')"
    using fromValuesArray_elementwise
            [where vs = "[?a, ?bad, ?b]" and i = 1 and ss' = "[?sa]"
               and e = "TypeError ''Cannot assign to read only property''"]
          a bad
    by simp
  from ok len err show ?thesis by simp
qed

section \<open>Properties of Channels\<close>

lemma Channels_get_stored:
  assumes "Channels_get S N U this name opts = Inr (channel, this')"
  shows "\<exists>state. all this' (S name) = Some (channel, state)"
  using assms
  by (auto simp: Channels_get_def Let_def split: option.splits sum.splits if_splits)

lemma Channels_get_existing:
  assumes "all this (S name) = Some (channel, state)"
    and "Channels_get S N U this name opts = Inr (channel', this')"
  shows "channel' = channel"
  using assms
  by (auto simp: Channels_get_def Let_def split: sum.splits if_splits)

lemma Channels_inv_constructor: "Channels_inv Channels_constructor"
  by (simp add: Channels_inv_def Channels_constructor_def)

lemma Channels_inv_get:
  assumes "Channels_inv this" and "Channels_get S N U this name opts = Inr (channel, this')"
  shows "Channels_inv this'"
  using assms
  by (fastforce simp: Channels_get_def Channels_inv_def Let_def less_Suc_eq
        split: option.splits sum.splits if_splits)

lemma Channels_inv_release:
  assumes "Channels_inv this"
  shows "Channels_inv (Channels_release S this name)"
  using assms by (auto simp: Channels_release_def Channels_inv_def split: if_splits)

text \<open>
  The identities are meaningful: under the invariant, a name that has no channel yet (also
  one that was released) receives a channel that no name of the set holds.
\<close>

lemma Channels_get_new_is_fresh:
  assumes "Channels_inv this" and "all this (S name) = None"
    and "Channels_get S N U this name opts = Inr (channel, this')"
    and "all this name' = Some (channel', state')"
  shows "channel \<noteq> channel'"
  using assms
  by (auto simp: Channels_get_def Channels_inv_def Let_def split: sum.splits)

text \<open>
  Claim C1. The channel set is a map from names to channels, so it holds at most one
  channel per name. \<open>get name\<close> coerces the name to a string; when the set has a channel
  under that string it returns that very channel and leaves the set as it is, otherwise it
  constructs a channel, stores it under the string and returns it. Hence after a \<open>get\<close>
  that returned a channel, a second \<open>get\<close> of the name returns the same channel and changes
  nothing, and a \<open>get\<close> that also passes options still returns that channel whenever it
  returns at all.
\<close>

theorem Channels_get_idempotent:
  "(case all this (S name) of
      Some (channel, state) \<Rightarrow> Channels_get S N U this name JUndefined = Inr (channel, this)
    | None \<Rightarrow>
        (case N (S name) JUndefined of
           Inl e \<Rightarrow> Channels_get S N U this name JUndefined = Inl e
         | Inr state \<Rightarrow>
             Channels_get S N U this name JUndefined
               = Inr (fresh this,
                      this\<lparr>all := (all this)(S name \<mapsto> (fresh this, state)),
                           fresh := Suc (fresh this)\<rparr>)))
   \<and> (\<forall>opts channel this'.
         Channels_get S N U this name opts = Inr (channel, this') \<longrightarrow>
           Channels_get S N U this' name JUndefined = Inr (channel, this')
           \<and> (\<forall>opts' channel' this''.
                 Channels_get S N U this' name opts' = Inr (channel', this'') \<longrightarrow>
                   channel' = channel))"
proof (intro conjI allI impI)
  show "case all this (S name) of
          Some (channel, state) \<Rightarrow> Channels_get S N U this name JUndefined = Inr (channel, this)
        | None \<Rightarrow>
            (case N (S name) JUndefined of
               Inl e \<Rightarrow> Channels_get S N U this name JUndefined = Inl e
             | Inr state \<Rightarrow>
                 Channels_get S N U this name JUndefined
                   = Inr (fresh this,
                          this\<lparr>all := (all this)(S name \<mapsto> (fresh this, state)),
                               fresh := Suc (fresh this)\<rparr>))"
    by (simp add: Channels_get_def Let_def split: option.splits sum.splits)
next
  fix opts channel this'
  assume g: "Channels_get S N U this name opts = Inr (channel, this')"
  from Channels_get_stored [OF g]
  obtain state where st: "all this' (S name) = Some (channel, state)" ..
  then show "Channels_get S N U this' name JUndefined = Inr (channel, this')"
    by (simp add: Channels_get_def Let_def)
  fix opts' channel' this''
  assume "Channels_get S N U this' name opts' = Inr (channel', this'')"
  with st show "channel' = channel"
    by (rule Channels_get_existing)
qed

theorem Channels_get_idempotent_witness:
  "Channels_get (\<lambda>s. s) (\<lambda>name opts. Inr opts) (\<lambda>state opts. Inr opts)
      Channels_constructor ''room:1'' JUndefined
     = Inr (0, \<lparr>all = [''room:1'' \<mapsto> (0, JUndefined)], fresh = 1\<rparr>)
   \<and> Channels_get (\<lambda>s. s) (\<lambda>name opts. Inr opts) (\<lambda>state opts. Inr opts)
      \<lparr>all = [''room:1'' \<mapsto> (0, JUndefined)], fresh = 1\<rparr> ''room:1'' JUndefined
     = Inr (0, \<lparr>all = [''room:1'' \<mapsto> (0, JUndefined)], fresh = 1\<rparr>)"
proof -
  let ?S = "\<lambda>s::string. s"
  let ?N = "\<lambda>(name::string) opts::jsval. (Inr opts :: js_error + jsval)"
  let ?U = "\<lambda>(state::jsval) opts::jsval. (Inr opts :: js_error + jsval)"
  let ?c1 = "\<lparr>all = [''room:1'' \<mapsto> (0::nat, JUndefined)], fresh = 1\<rparr>"
  have first: "Channels_get ?S ?N ?U Channels_constructor ''room:1'' JUndefined = Inr (0, ?c1)"
    by (simp add: Channels_get_def Channels_constructor_def)
  from Channels_get_idempotent
         [where this = Channels_constructor and S = ?S and name = "''room:1''" and N = ?N and U = ?U]
       first
  have "Channels_get ?S ?N ?U ?c1 ''room:1'' JUndefined = Inr (0, ?c1)"
    by blast
  with first show ?thesis by simp
qed

section \<open>Properties of the constructor\<close>

lemma keyMatch_example: "keyMatch ''appid.keyid:secret'' = Some (''appid.keyid'', ''secret'')"
  by (simp add: keyMatch_def isSpace_def)

lemma keyMatch_example_bad: "keyMatch ''not a key'' = None"
  by (simp add: keyMatch_def isSpace_def)

lemma BaseClient_constructor_example:
  "BaseClient_constructor example_Environment (JObj [(''key'', JStr ''appid.keyid:secret'')])
     = Inr example_client"
  by (simp add: BaseClient_constructor_def example_Environment_def example_normaliseOptions_def
        keyMatch_example example_client_def example_options_def)

lemma BaseClient_constructor_initial:
  fixes c :: "('a, 'p, 'c) BaseClient"
  assumes "BaseClient_constructor E opts = Inr c"
  shows "currentFallback c = None \<and> serverTimeOffset c = None \<and> channels c = Channels_constructor"
  using assms
  by (auto simp: BaseClient_constructor_def Let_def split: if_splits sum.splits option.splits)

text \<open>
  Claim C9. The constructor validates its options before it builds anything: without
  options it throws the plain error \<open>no options provided\<close>; with a key (a non-empty
  string) that does not have the form \<open>name:secret\<close> it throws an \<open>ErrorInfo\<close> with code
  40400; with a \<open>clientId\<close> property that is neither a string nor \<^verbatim>\<open>null\<close>, or that is the
  string \<open>*\<close>, it throws an \<open>ErrorInfo\<close> with code 40012 (the key is checked first). In
  each of these cases the result is the error and no client; a client is the result only
  when all three checks have passed.
\<close>

theorem BaseClient_constructor_validates:
  fixes E :: "('o, 'a, 'p) Environment"
  shows
  "(\<not> truthy opts \<longrightarrow>
      (BaseClient_constructor E opts :: js_error + ('a, 'p, 'c) BaseClient)
        = Inl (Error ''no options provided''))
   \<and> (truthy opts \<and> normaliseOptions E (objectifyOptions E opts) = Inr n
        \<and> key n = Some k \<and> k \<noteq> [] \<and> keyMatch k = None \<longrightarrow>
      (BaseClient_constructor E opts :: js_error + ('a, 'p, 'c) BaseClient)
        = Inl (ErrorInfo ''invalid key parameter'' 40400 404))
   \<and> (truthy opts \<and> normaliseOptions E (objectifyOptions E opts) = Inr n
        \<and> (case key n of None \<Rightarrow> True | Some k \<Rightarrow> k = [] \<or> keyMatch k \<noteq> None)
        \<and> clientId n = Some v \<and> typeof v \<noteq> ''string'' \<and> v \<noteq> JNull \<longrightarrow>
      (BaseClient_constructor E opts :: js_error + ('a, 'p, 'c) BaseClient)
        = Inl (ErrorInfo ''clientId must be either a string or null'' 40012 400))
   \<and> (truthy opts \<and> normaliseOptions E (objectifyOptions E opts) = Inr n
        \<and> (case key n of None \<Rightarrow> True | Some k \<Rightarrow> k = [] \<or> keyMatch k \<noteq> None)
        \<and> clientId n = Some (JStr ''*'') \<longrightarrow>
      (BaseClient_constructor E opts :: js_error + ('a, 'p, 'c) BaseClient)
        = Inl (ErrorInfo clientId_reserved 40012 400))
   \<and> (\<forall>c :: ('a, 'p, 'c) BaseClient. BaseClient_constructor E opts = Inr c \<longrightarrow>
        truthy opts
        \<and> (\<exists>n. normaliseOptions E (objectifyOptions E opts) = Inr n
              \<and> (case key n of None \<Rightarrow> True | Some k \<Rightarrow> k = [] \<or> keyMatch k \<noteq> None)
              \<and> (case clientId n of
                    None \<Rightarrow> True
                  | Some v \<Rightarrow> (typeof v = ''string'' \<or> v = JNull) \<and> v \<noteq> JStr ''*'')))"
proof (intro conjI impI allI)
  assume "\<not> truthy opts"
  then show "(BaseClient_constructor E opts :: js_error + ('a, 'p, 'c) BaseClient)
               = Inl (Error ''no options provided'')"
    by (simp add: BaseClient_constructor_def)
next
  assume "truthy opts \<and> normaliseOptions E (objectifyOptions E opts) = Inr n
          \<and> key n = Some k \<and> k \<noteq> [] \<and> keyMatch k = None"
  then show "(BaseClient_constructor E opts :: js_error + ('a, 'p, 'c) BaseClient)
               = Inl (ErrorInfo ''invalid key parameter'' 40400 404)"
    by (simp add: BaseClient_constructor_def)
next
  assume "truthy opts \<and> normaliseOptions E (objectifyOptions E opts) = Inr n
        \<and> (case key n of None \<Rightarrow> True | Some k \<Rightarrow> k = [] \<or> keyMatch k \<noteq> None)
        \<and> clientId n = Some v \<and> typeof v \<noteq> ''string'' \<and> v \<noteq> JNull"
  then show "(BaseClient_constructor E opts :: js_error + ('a, 'p, 'c) BaseClient)
        = Inl (ErrorInfo ''clientId must be either a string or null'' 40012 400)"
    by (auto simp: BaseClient_constructor_def split: option.splits)
next
  assume "truthy opts \<and> normaliseOptions E (objectifyOptions E opts) = Inr n
        \<and> (case key n of None \<Rightarrow> True | Some k \<Rightarrow> k = [] \<or> keyMatch k \<noteq> None)
        \<and> clientId n = Some (JStr ''*'')"
  then show "(BaseClient_constructor E opts :: js_error + ('a, 'p, 'c) BaseClient)
        = Inl (ErrorInfo clientId_reserved 40012 400)"
    by (auto simp: BaseClient_constructor_def split: option.splits)
next
  fix c :: "('a, 'p, 'c) BaseClient"
  assume c: "BaseClient_constructor E opts = Inr c"
  then show "truthy opts"
    by (auto simp: BaseClient_constructor_def split: if_splits)
  from c show "\<exists>n. normaliseOptions E (objectifyOptions E opts) = Inr n
              \<and> (case key n of None \<Rightarrow> True | Some k \<Rightarrow> k = [] \<or> keyMatch k \<noteq> None)
              \<and> (case clientId n of
                    None \<Rightarrow> True
                  | Some v \<Rightarrow> (typeof v = ''string'' \<or> v = JNull) \<and> v \<noteq> JStr ''*'')"
    by (auto simp: BaseClient_constructor_def Let_def split: if_splits sum.splits option.splits)
qed

theorem BaseClient_constructor_validates_witness:
  "(BaseClient_constructor example_Environment JUndefined
      :: js_error + (unit, unit, jsval) BaseClient)
     = Inl (Error ''no options provided'')
   \<and> (BaseClient_constructor example_Environment (JObj [(''key'', JStr ''not a key'')])
      :: js_error + (unit, unit, jsval) BaseClient)
     = Inl (ErrorInfo ''invalid key parameter'' 40400 404)
   \<and> (BaseClient_constructor example_Environment
        (JObj [(''key'', JStr ''appid.keyid:secret''), (''clientId'', JNum 7)])
      :: js_error + (unit, unit, jsval) BaseClient)
     = Inl (ErrorInfo ''clientId must be either a string or null'' 40012 400)
   \<and> (BaseClient_constructor example_Environment
        (JObj [(''key'', JStr ''appid.keyid:secret''), (''clientId'', JStr ''*'')])
      :: js_error + (unit, unit, jsval) BaseClient)
     = Inl (ErrorInfo clientId_reserved 40012 400)
   \<and> BaseClient_constructor example_Environment (JObj [(''key'', JStr ''appid.keyid:secret'')])
     = Inr example_client
   \<and> (\<exists>n. normaliseOptions example_Environment
               (objectifyOptions example_Environment (JObj [(''key'', JStr ''appid.keyid:secret'')]))
             = Inr n
           \<and> (case clientId n of
                 None \<Rightarrow> True
               | Some v \<Rightarrow> (typeof v = ''string'' \<or> v = JNull) \<and> v \<noteq> JStr ''*''))"
proof -
  let ?E = example_Environment
  let ?good = "JObj [(''key'', JStr ''appid.keyid:secret'')]"
  let ?bad = "JObj [(''key'', JStr ''not a key'')]"
  let ?num = "JObj [(''key'', JStr ''appid.keyid:secret''), (''clientId'', JNum 7)]"
  let ?star = "JObj [(''key'', JStr ''appid.keyid:secret''), (''clientId'', JStr ''*'')]"
  let ?n = "\<lambda>k c. \<lparr>key = Some k, keyName = None, keySecret = None, clientId = c,
                     useBinaryProtocol = False, headers = None\<rparr>"
  have n1: "normaliseOptions ?E (objectifyOptions ?E ?bad) = Inr (?n ''not a key'' None)"
    by (simp add: example_Environment_def example_normaliseOptions_def)
  have n2: "normaliseOptions ?E (objectifyOptions ?E ?num)
              = Inr (?n ''appid.keyid:secret'' (Some (JNum 7)))"
    by (simp add: example_Environment_def example_normaliseOptions_def)
  have n3: "normaliseOptions ?E (objectifyOptions ?E ?star)
              = Inr (?n ''appid.keyid:secret'' (Some (JStr ''*'')))"
    by (simp add: example_Environment_def example_normaliseOptions_def)
  have "(BaseClient_constructor ?E JUndefined :: js_error + (unit, unit, jsval) BaseClient)
          = Inl (Error ''no options provided'')"
    using BaseClient_constructor_validates [where 'c = jsval and E = ?E and opts = JUndefined] by simp
  moreover
  have "(BaseClient_constructor ?E ?bad :: js_error + (unit, unit, jsval) BaseClient)
          = Inl (ErrorInfo ''invalid key parameter'' 40400 404)"
    using BaseClient_constructor_validates
            [where 'c = jsval and E = ?E and opts = ?bad and n = "?n ''not a key'' None" and k = "''not a key''"]
          n1 keyMatch_example_bad
    by simp
  moreover
  have "(BaseClient_constructor ?E ?num :: js_error + (unit, unit, jsval) BaseClient)
          = Inl (ErrorInfo ''clientId must be either a string or null'' 40012 400)"
    using BaseClient_constructor_validates
            [where 'c = jsval and E = ?E and opts = ?num and n = "?n ''appid.keyid:secret'' (Some (JNum 7))"
               and v = "JNum 7"]
          n2 keyMatch_example
    by simp
  moreover
  have "(BaseClient_constructor ?E ?star :: js_error + (unit, unit, jsval) BaseClient)
          = Inl (ErrorInfo clientId_reserved 40012 400)"
    using BaseClient_constructor_validates
            [where 'c = jsval and E = ?E and opts = ?star and n = "?n ''appid.keyid:secret'' (Some (JStr ''*''))"]
          n3 keyMatch_example
    by simp
  moreover
  have "\<exists>n. normaliseOptions ?E (objectifyOptions ?E ?good) = Inr n
           \<and> (case clientId n of
                 None \<Rightarrow> True
               | Some v \<Rightarrow> (typeof v = ''string'' \<or> v = JNull) \<and> v \<noteq> JStr ''*'')"
    using BaseClient_constructor_validates [where 'c = jsval and E = ?E and opts = ?good]
          BaseClient_constructor_example
    by blast
  ultimately show ?thesis
    using BaseClient_constructor_example by simp
qed

section \<open>Properties of stats, time and request\<close>

lemma request_promise:
  "request E this method path version params body customHeaders JUndefined
     = Returns_promise
         (promisify
            (request E this method path version (if truthy params then params else JObj [])
               body customHeaders JPromiseCallback))"
  by (subst request.simps) (simp add: Let_def)


lemma request_supported:
  assumes "callback \<noteq> JUndefined" and "arrIn (Http_methods E) (toLowerCase method)"
  shows "\<exists>r args. request E this method path version params body customHeaders callback
                     = Returns_undefined [Paginated r (toLowerCase method) (args @ [callback])]
                   \<and> hd (args @ [callback]) = (if truthy params then params else JObj [])"
  using assms by (subst request.simps) (simp add: Let_def)

lemma stats_unfold:
  "stats E this params callback =
     (if callback = JUndefined
      then (if typeof params = ''function''
            then stats_issue E this JNull params
            else Returns_promise (promisify (stats_issue E this params JPromiseCallback)))
      else stats_issue E this params callback)"
  by (subst stats.simps, subst stats.simps) simp

lemma time_unfold:
  "time E this params callback =
     (if callback = JUndefined
      then (if typeof params = ''function''
            then time_issue E this JNull params
            else Returns_promise (promisify (time_issue E this params JPromiseCallback)))
      else time_issue E this params callback)"
  by (subst time.simps, subst time.simps) simp

lemma stats_issue_issued:
  "\<exists>r. stats_issue E this params callback = Returns_undefined [Paginated r ''get'' [params, callback]]"
  by (simp add: stats_issue_def Let_def)

lemma time_issue_issued:
  "\<exists>uri hs. time_issue E this params callback
      = Returns_undefined
          [Http_do ''get'' uri hs JNull params (if truthy callback then callback else JNoop)]"
  by (simp add: time_issue_def Let_def HttpMethods_Get_def)

lemma typeof_function_truthy: "typeof v = ''function'' \<Longrightarrow> truthy v \<and> v \<noteq> JUndefined"
  by (cases v) simp_all

lemma decimal_443: "decimal 443 = ''443''"
  by (simp add: decimal.simps)
lemma toLowerCase_GET: "toLowerCase ''GET'' = ''get''"
  by (simp add: toLowerCase_def toLowerCase_char_def)



text \<open>
  Claim C2, as the spec states it, does not hold of \<^verbatim>\<open>time\<close> (nor of \<^verbatim>\<open>stats\<close>): a function
  in the position of \<open>params\<close> is used as the callback, and the call is issued with
  \<^verbatim>\<open>null\<close> parameters and returns \<^verbatim>\<open>undefined\<close>, whereas an object in the same position
  is used as the parameters, and the call returns a promise.
\<close>

theorem positional_overload_counterexample:
  "time example_Environment example_client (JFun 1) JUndefined
     = Returns_undefined
         [Http_do ''get'' (\<lambda>h. ''https://'' @ h @ '':443/time'') [(''accept'', ''application/json'')]
            JNull JNull (JFun 1)]
   \<and> time example_Environment example_client (JObj []) JUndefined
     = Returns_promise
         (Pending
            [Http_do ''get'' (\<lambda>h. ''https://'' @ h @ '':443/time'')
               [(''accept'', ''application/json'')] JNull (JObj []) JPromiseCallback])"
  by (simp add: time_unfold time_issue_def promisify_def example_Environment_def example_client_def
        example_options_def baseUri_def HttpMethods_Get_def decimal_443)

text \<open>
  Claim C2, amended. \<^verbatim>\<open>stats\<close> and \<^verbatim>\<open>time\<close> resolve their two positional arguments by the
  runtime type of the first: called without a callback and with a function as first
  argument, each behaves as the call with \<^verbatim>\<open>null\<close> parameters and that function as the
  callback; with any other first argument and no callback, the first argument is the
  parameters of the issued call and the result goes to the promise; with a callback, the
  first argument is the parameters and the second the callback. \<^verbatim>\<open>request\<close> does no such
  resolution: for a supported method the parameters of the issued call are its \<open>params\<close>
  argument (an empty object when that is falsy) and the result goes to its \<open>callback\<close>
  argument, or to the promise when that is \<^verbatim>\<open>undefined\<close>.
\<close>

theorem positional_overload_resolution:
  "(typeof params = ''function'' \<longrightarrow>
      stats E this params JUndefined = stats E this JNull params
      \<and> time E this params JUndefined = time E this JNull params)
   \<and> (typeof params \<noteq> ''function'' \<longrightarrow>
        map arguments (issued (stats E this params JUndefined)) = [[params, JPromiseCallback]]
        \<and> map do_params (issued (time E this params JUndefined)) = [params]
        \<and> map do_callback (issued (time E this params JUndefined)) = [JPromiseCallback])
   \<and> (callback \<noteq> JUndefined \<longrightarrow>
        map arguments (issued (stats E this params callback)) = [[params, callback]]
        \<and> map do_params (issued (time E this params callback)) = [params]
        \<and> map do_callback (issued (time E this params callback))
            = [if truthy callback then callback else JNoop])
   \<and> (arrIn (Http_methods E) (toLowerCase verb) \<longrightarrow>
        map (\<lambda>a. (hd (arguments a), last (arguments a)))
          (issued (request E this verb path version params body customHeaders callback))
        = [(if truthy params then params else JObj [],
            if callback = JUndefined then JPromiseCallback else callback)])"
proof (intro conjI impI)
  assume f: "typeof params = ''function''"
  then have "params \<noteq> JUndefined" by (simp add: typeof_function_truthy)
  then show "stats E this params JUndefined = stats E this JNull params"
    using f by (simp add: stats_unfold)
  from \<open>params \<noteq> JUndefined\<close> show "time E this params JUndefined = time E this JNull params"
    using f by (simp add: time_unfold)
next
  assume nf: "typeof params \<noteq> ''function''"
  obtain r where r: "stats_issue E this params JPromiseCallback
                       = Returns_undefined [Paginated r ''get'' [params, JPromiseCallback]]"
    using stats_issue_issued by blast
  show "map arguments (issued (stats E this params JUndefined)) = [[params, JPromiseCallback]]"
    using nf by (simp add: stats_unfold r promisify_def)
  obtain uri hs where t: "time_issue E this params JPromiseCallback
      = Returns_undefined [Http_do ''get'' uri hs JNull params JPromiseCallback]"
    using time_issue_issued [of E this params JPromiseCallback] by auto
  show "map do_params (issued (time E this params JUndefined)) = [params]"
    using nf by (simp add: time_unfold t promisify_def)
  show "map do_callback (issued (time E this params JUndefined)) = [JPromiseCallback]"
    using nf by (simp add: time_unfold t promisify_def)
next
  assume cb: "callback \<noteq> JUndefined"
  obtain r where r: "stats_issue E this params callback
                       = Returns_undefined [Paginated r ''get'' [params, callback]]"
    using stats_issue_issued by blast
  show "map arguments (issued (stats E this params callback)) = [[params, callback]]"
    using cb by (simp add: stats_unfold r)
  obtain uri hs where t: "time_issue E this params callback
      = Returns_undefined
          [Http_do ''get'' uri hs JNull params (if truthy callback then callback else JNoop)]"
    using time_issue_issued by blast
  show "map do_params (issued (time E this params callback)) = [params]"
    using cb by (simp add: time_unfold t)
  show "map do_callback (issued (time E this params callback))
          = [if truthy callback then callback else JNoop]"
    using cb by (simp add: time_unfold t)
next
  assume m: "arrIn (Http_methods E) (toLowerCase verb)"
  let ?p = "if truthy params then params else JObj []"
  show "map (\<lambda>a. (hd (arguments a), last (arguments a)))
          (issued (request E this verb path version params body customHeaders callback))
        = [(?p, if callback = JUndefined then JPromiseCallback else callback)]"
  proof (cases "callback = JUndefined")
    case False
    from request_supported [OF False m]
    obtain r args where
      "request E this verb path version params body customHeaders callback
         = Returns_undefined [Paginated r (toLowerCase verb) (args @ [callback])]"
      "hd (args @ [callback]) = ?p"
      by blast
    with False show ?thesis by simp
  next
    case True
    have pc: "JPromiseCallback \<noteq> JUndefined" by simp
    from request_supported [OF pc m]
    obtain r args where
      "request E this verb path version ?p body customHeaders JPromiseCallback
         = Returns_undefined [Paginated r (toLowerCase verb) (args @ [JPromiseCallback])]"
      "hd (args @ [JPromiseCallback]) = (if truthy ?p then ?p else JObj [])"
      by blast
    with True show ?thesis
      by (simp add: request_promise promisify_def split: if_splits)
  qed
qed

theorem positional_overload_resolution_witness:
  "stats example_Environment example_client (JFun 1) JUndefined
     = stats example_Environment example_client JNull (JFun 1)
   \<and> time example_Environment example_client (JFun 1) JUndefined
     = time example_Environment example_client JNull (JFun 1)
   \<and> map do_params (issued (time example_Environment example_client (JObj []) JUndefined))
     = [JObj []]
   \<and> map arguments (issued (stats example_Environment example_client (JObj []) (JFun 2)))
     = [[JObj [], JFun 2]]
   \<and> map (\<lambda>a. (hd (arguments a), last (arguments a)))
        (issued (request example_Environment example_client ''GET'' ''/channels'' 2 JNull JNull
                   None (JFun 2)))
     = [(JObj [], JFun 2)]"
proof -
  have m: "arrIn (Http_methods example_Environment) (toLowerCase ''GET'')"
    by (simp add: arrIn_def example_Environment_def toLowerCase_GET)
  show ?thesis
    using positional_overload_resolution
            [where E = example_Environment and this = example_client and params = "JFun 1"
               and callback = "JFun 2" and verb = "''GET''"]
          positional_overload_resolution
            [where E = example_Environment and this = example_client and params = "JObj []"
               and callback = "JFun 2" and verb = "''GET''"]
          positional_overload_resolution
            [where E = example_Environment and this = example_client and params = JNull
               and callback = "JFun 2" and verb = "''GET''" and path = "''/channels''"
               and version = 2 and body = JNull and customHeaders = None]
          m
    by simp
qed

text \<open>
  What the handler of \<^verbatim>\<open>time\<close> does with a response, case by case: it calls the callback
  with the transport's error, or with the internal error, or with \<^verbatim>\<open>null\<close> and the time,
  or an error escapes from it and the callback is not called.
\<close>

lemma time_handler_cases:
  "time_handler E this now cb err res unpacked =
     (if truthy err then (Calls cb [err], this)
      else case (if unpacked then Inr res else JSON_parse E res) of
             Inl e \<Rightarrow> (Raises e, this)
           | Inr v \<Rightarrow>
               (case element0 v of
                  Inl e \<Rightarrow> (Raises e, this)
                | Inr t \<Rightarrow>
                    if truthy t
                    then (Calls cb [JNull, t], this\<lparr>serverTimeOffset := Some (Difference t now)\<rparr>)
                    else (Calls cb
                            [JErr (ErrorInfo ''Internal error (unexpected result type from GET /time)''
                                     50000 500)],
                          this)))"
  by (simp add: time_handler_def split: sum.splits)

text \<open>
  Claim C4 says that for every outcome of the HTTP call the callback of \<^verbatim>\<open>time\<close> is called,
  with the transport's error, with the internal error 50000, or with the time. The
  handler does not do so when the transport reports success with a response that is
  \<^verbatim>\<open>null\<close> or \<^verbatim>\<open>undefined\<close>: the read \<^verbatim>\<open>res[0]\<close> throws, the error leaves the handler, and
  the callback is never called.
\<close>

theorem time_handler_drops_failure:
  "time_handler E this now the_callback JNull JNull True
     = (Raises (TypeError ''Cannot read properties of null''), this)
   \<and> time_handler E this now the_callback JUndefined JUndefined True
     = (Raises (TypeError ''Cannot read properties of undefined''), this)"
  by (simp add: time_handler_def)






section \<open>Properties of the client's state\<close>

lemma time_handler_other_fields:
  "time_handler E this now cb err res unpacked = (r, this') \<Longrightarrow>
   this' = this \<or> (\<exists>t. this' = this\<lparr>serverTimeOffset := Some (Difference t now)\<rparr>)"
  by (auto simp: time_handler_def split: if_splits sum.splits)

lemma perform_serverTimeOffset:
  "(\<forall>now cb err res unpacked. operation \<noteq> Time_response now cb err res unpacked) \<Longrightarrow>
   serverTimeOffset (perform E S N U this operation) = serverTimeOffset this"
  by (cases operation) (auto split: sum.splits)

text \<open>
  Claim C7. The server time offset is state of one client instance. The constructor sets
  it to \<^verbatim>\<open>null\<close>. An operation performed on instance \<open>i\<close> leaves every other instance \<open>j\<close>
  as it is, so the response to a \<^verbatim>\<open>time\<close> of one client does not change the offset of
  another. On instance \<open>i\<close> itself only the response to its own \<^verbatim>\<open>time\<close> changes the offset:
  every other operation leaves it as it is.
\<close>

theorem serverTimeOffset_per_instance:
  fixes E :: "('o, 'a, 'p) Environment" and clients :: "nat \<rightharpoonup> ('a, 'p, 'c) BaseClient"
  shows
  "(\<forall>c :: ('a, 'p, 'c) BaseClient.
      BaseClient_constructor E opts = Inr c \<longrightarrow> serverTimeOffset c = None)
   \<and> (j \<noteq> i \<longrightarrow> perform_on E S N U clients i operation j = clients j)
   \<and> (clients i = Some this
        \<and> (\<forall>now cb err res unpacked. operation \<noteq> Time_response now cb err res unpacked) \<longrightarrow>
        map_option serverTimeOffset (perform_on E S N U clients i operation i)
          = Some (serverTimeOffset this))
   \<and> (clients i = Some this \<longrightarrow>
        map_option serverTimeOffset
          (perform_on E S N U clients i (Time_response now cb err res unpacked) i)
          = Some (serverTimeOffset (snd (time_handler E this now cb err res unpacked))))"
proof (intro conjI impI allI)
  fix c :: "('a, 'p, 'c) BaseClient"
  assume "BaseClient_constructor E opts = Inr c"
  then show "serverTimeOffset c = None"
    by (simp add: BaseClient_constructor_initial)
next
  assume "j \<noteq> i"
  then show "perform_on E S N U clients i operation j = clients j"
    by (simp add: perform_on_def split: option.splits)
next
  assume "clients i = Some this
        \<and> (\<forall>now cb err res unpacked. operation \<noteq> Time_response now cb err res unpacked)"
  then show "map_option serverTimeOffset (perform_on E S N U clients i operation i)
          = Some (serverTimeOffset this)"
    by (simp add: perform_on_def perform_serverTimeOffset)
next
  assume "clients i = Some this"
  then show "map_option serverTimeOffset
          (perform_on E S N U clients i (Time_response now cb err res unpacked) i)
          = Some (serverTimeOffset (snd (time_handler E this now cb err res unpacked)))"
    by (simp add: perform_on_def)
qed

theorem serverTimeOffset_per_instance_witness:
  "perform_on example_Environment (\<lambda>s. s) (\<lambda>name opts. Inr opts) (\<lambda>state opts. Inr opts)
      [0 \<mapsto> example_client, 1 \<mapsto> example_client] 0
      (Time_response 1699999999000 (JFun 1) JNull (JArr [JNum 1700000000000]) True) 1
     = Some example_client
   \<and> map_option serverTimeOffset
       (perform_on example_Environment (\<lambda>s. s) (\<lambda>name opts. Inr opts) (\<lambda>state opts. Inr opts)
          [0 \<mapsto> example_client, 1 \<mapsto> example_client] 0
          (Time_response 1699999999000 (JFun 1) JNull (JArr [JNum 1700000000000]) True) 0)
     = Some (Some (Difference (JNum 1700000000000) 1699999999000))
   \<and> map_option serverTimeOffset
       (perform_on example_Environment (\<lambda>s. s) (\<lambda>name opts. Inr opts) (\<lambda>state opts. Inr opts)
          [0 \<mapsto> example_client, 1 \<mapsto> example_client] 0
          (Stats JNull (JFun 1)) 0)
     = Some None
   \<and> BaseClient_constructor example_Environment (JObj [(''key'', JStr ''appid.keyid:secret'')])
     = Inr example_client
   \<and> serverTimeOffset example_client = None"
proof -
  let ?S = "\<lambda>s::string. s"
  let ?N = "\<lambda>(name::string) opts::jsval. (Inr opts :: js_error + jsval)"
  let ?U = "\<lambda>(state::jsval) opts::jsval. (Inr opts :: js_error + jsval)"
  let ?cs = "[0 \<mapsto> example_client, 1 \<mapsto> example_client]"
  let ?t = "Time_response 1699999999000 (JFun 1) JNull (JArr [JNum 1700000000000]) True
              :: string operation"
  have h: "snd (time_handler example_Environment example_client 1699999999000 (JFun 1) JNull
                  (JArr [JNum 1700000000000]) True)
             = example_client\<lparr>serverTimeOffset
                                := Some (Difference (JNum 1700000000000) 1699999999000)\<rparr>"
    by (simp add: time_handler_def)
  have o: "serverTimeOffset example_client = None"
    by (simp add: example_client_def)
  show ?thesis
    using serverTimeOffset_per_instance
            [where E = example_Environment and S = ?S and N = ?N and U = ?U and clients = ?cs
               and i = 0 and j = 1 and operation = ?t and this = example_client
               and now = 1699999999000 and cb = "JFun 1" and err = JNull
               and res = "JArr [JNum 1700000000000]" and unpacked = True]
          serverTimeOffset_per_instance
            [where E = example_Environment and S = ?S and N = ?N and U = ?U and clients = ?cs
               and i = 0 and j = 1 and operation = "Stats JNull (JFun 1)" and this = example_client]
          serverTimeOffset_per_instance
            [where E = example_Environment and opts = "JObj [(''key'', JStr ''appid.keyid:secret'')]"
               and S = ?S and N = ?N and U = ?U and clients = ?cs
               and i = 0 and j = 1 and operation = "Stats JNull (JFun 1)" and this = example_client]
          BaseClient_constructor_example h o
    by simp
qed

section \<open>Properties of the HTTP request engine\<close>

lemma attempt_hosts_first:
  "\<exists>r current' rest. attempt_hosts transport P now h untried current = (r, current', h # rest)"
proof (cases "transport h")
  case (Succeeds v)
  then show ?thesis by (subst attempt_hosts.simps) simp
next
  case (Fails e)
  then show ?thesis by (subst attempt_hosts.simps) simp
next
  case (Fails_retryable e)
  show ?thesis
  proof (cases untried)
    case Nil
    with Fails_retryable show ?thesis by (subst attempt_hosts.simps) simp
  next
    case (Cons h' untried')
    with Fails_retryable show ?thesis
      by (subst attempt_hosts.simps) (simp add: Let_def split: prod.splits)
  qed
qed

lemma attempt_hosts_keeps:
  "attempt_hosts transport P now h untried (Some f) = (r, current', attempted) \<Longrightarrow>
   current' \<noteq> Some f \<Longrightarrow> \<exists>e. transport (host f) = Fails_retryable e"
proof (induction untried arbitrary: h r current' attempted)
  case Nil
  then show ?case
    by (subst (asm) attempt_hosts.simps) (auto split: attempt.splits if_splits)
next
  case (Cons h' untried')
  show ?case
  proof (cases "transport h")
    case (Succeeds v)
    with Cons.prems show ?thesis by (subst (asm) attempt_hosts.simps) simp
  next
    case (Fails e)
    with Cons.prems show ?thesis by (subst (asm) attempt_hosts.simps) simp
  next
    case (Fails_retryable e)
    show ?thesis
    proof (cases "host f = h")
      case True
      with Fails_retryable show ?thesis by auto
    next
      case False
      obtain r' c' a' where rec: "attempt_hosts transport P now h' untried' (Some f) = (r', c', a')"
        by (cases "attempt_hosts transport P now h' untried' (Some f)") auto
      from Cons.prems(1) Fails_retryable False rec have "c' = current'"
        by (subst (asm) attempt_hosts.simps) simp
      with Cons.IH [OF rec] Cons.prems(2) show ?thesis by simp
    qed
  qed
qed

lemma attempt_hosts_success:
  "transport h = Succeeds v \<Longrightarrow>
   attempt_hosts transport P now h untried (Some f) = (Inr v, Some f, [h])"
  by (subst attempt_hosts.simps) simp

lemma http_do_example:
  "http_do example_transport example_policy 1000 None
     = (Inr (JArr [JNum 1700000000000]),
        Some \<lparr>host = ''b.ably-realtime.com'', validUntil = 601000\<rparr>,
        [''rest.ably.io'', ''a.ably-realtime.com'', ''b.ably-realtime.com''])"
  by (simp add: http_do_def unexpired_def candidate_hosts_def example_policy_def
        example_transport_def attempt_hosts.simps)

text \<open>
  Claim C3. The client holds at most one current fallback: the field is either \<^verbatim>\<open>null\<close>
  or one record of a host and the instant \<open>validUntil\<close>, and the constructor sets it to
  \<^verbatim>\<open>null\<close>. While a record is present and unexpired, a request attempts its host first,
  and when that host answers, the record stays as it is. A request changes a record only
  when the record has expired or the attempt against its host failed with a retryable
  error.
\<close>

theorem sticky_fallback:
  fixes E :: "('o, 'a, 'p) Environment"
  shows
  "(\<forall>c :: ('a, 'p, 'c) BaseClient.
      BaseClient_constructor E opts = Inr c \<longrightarrow> currentFallback c = None)
   \<and> (current = Some f \<and> now < validUntil f \<longrightarrow>
        (\<exists>rest. snd (snd (http_do transport P now current)) = host f # rest))
   \<and> (current = Some f \<and> now < validUntil f \<and> transport (host f) = Succeeds v \<longrightarrow>
        http_do transport P now current = (Inr v, Some f, [host f]))
   \<and> (current = Some f \<and> fst (snd (http_do transport P now current)) \<noteq> Some f \<longrightarrow>
        validUntil f \<le> now \<or> (\<exists>e. transport (host f) = Fails_retryable e))"
proof (intro conjI impI allI)
  fix c :: "('a, 'p, 'c) BaseClient"
  assume "BaseClient_constructor E opts = Inr c"
  then show "currentFallback c = None"
    by (simp add: BaseClient_constructor_initial)
next
  assume a: "current = Some f \<and> now < validUntil f"
  obtain r c' rest where
    "attempt_hosts transport P now (host f)
       (take (maxAttempts P - 1) (removeAll (host f) (primaryHost P # fallbackHosts P))) (Some f)
       = (r, c', host f # rest)"
    using attempt_hosts_first by blast
  with a show "\<exists>rest. snd (snd (http_do transport P now current)) = host f # rest"
    by (simp add: http_do_def unexpired_def candidate_hosts_def)
next
  assume "current = Some f \<and> now < validUntil f \<and> transport (host f) = Succeeds v"
  then show "http_do transport P now current = (Inr v, Some f, [host f])"
    by (simp add: http_do_def unexpired_def candidate_hosts_def attempt_hosts_success)
next
  assume a: "current = Some f \<and> fst (snd (http_do transport P now current)) \<noteq> Some f"
  from a have cur: "current = Some f"
    by (rule conjunct1)
  from a have changed: "fst (snd (http_do transport P now current)) \<noteq> Some f"
    by (rule conjunct2)
  show "validUntil f \<le> now \<or> (\<exists>e. transport (host f) = Fails_retryable e)"
  proof (cases "now < validUntil f")
    case False
    then show ?thesis by simp
  next
    case True
    let ?hs = "take (maxAttempts P - 1) (removeAll (host f) (primaryHost P # fallbackHosts P))"
    have eq: "http_do transport P now current
                = attempt_hosts transport P now (host f) ?hs (Some f)"
      using cur True by (simp add: http_do_def unexpired_def candidate_hosts_def)
    obtain r c' tried where
      run: "attempt_hosts transport P now (host f) ?hs (Some f) = (r, c', tried)"
      by (cases "attempt_hosts transport P now (host f) ?hs (Some f)") auto
    from changed have "c' \<noteq> Some f"
      unfolding eq run by simp
    with attempt_hosts_keeps [OF run] show ?thesis by simp
  qed
qed

theorem sticky_fallback_witness:
  "(\<exists>rest. snd (snd (http_do example_transport example_policy 2000
                        (Some \<lparr>host = ''b.ably-realtime.com'', validUntil = 601000\<rparr>)))
             = ''b.ably-realtime.com'' # rest)
   \<and> http_do example_transport example_policy 2000
         (Some \<lparr>host = ''b.ably-realtime.com'', validUntil = 601000\<rparr>)
       = (Inr (JArr [JNum 1700000000000]),
          Some \<lparr>host = ''b.ably-realtime.com'', validUntil = 601000\<rparr>,
          [''b.ably-realtime.com''])
   \<and> fst (snd (http_do example_transport example_policy 2000
                  (Some \<lparr>host = ''a.ably-realtime.com'', validUntil = 601000\<rparr>)))
       \<noteq> Some \<lparr>host = ''a.ably-realtime.com'', validUntil = 601000\<rparr>
   \<and> (\<exists>e. example_transport ''a.ably-realtime.com'' = Fails_retryable e)
   \<and> BaseClient_constructor example_Environment (JObj [(''key'', JStr ''appid.keyid:secret'')])
     = Inr example_client
   \<and> currentFallback example_client = None"
proof -
  let ?b = "\<lparr>host = ''b.ably-realtime.com'', validUntil = 601000\<rparr>"
  let ?a = "\<lparr>host = ''a.ably-realtime.com'', validUntil = 601000\<rparr>"
  have b: "example_transport (host ?b) = Succeeds (JArr [JNum 1700000000000])"
    by (simp add: example_transport_def)
  have a: "fst (snd (http_do example_transport example_policy 2000 (Some ?a))) \<noteq> Some ?a"
    by (simp add: http_do_def unexpired_def candidate_hosts_def example_policy_def
          example_transport_def attempt_hosts.simps)
  show ?thesis
    using sticky_fallback
            [where 'c = jsval and E = example_Environment and opts = JNull
               and transport = example_transport and P = example_policy and now = 2000
               and current = "Some ?b" and f = ?b and v = "JArr [JNum 1700000000000]"]
          sticky_fallback
            [where 'c = jsval and E = example_Environment
               and opts = "JObj [(''key'', JStr ''appid.keyid:secret'')]"
               and transport = example_transport and P = example_policy and now = 2000
               and current = "Some ?a" and f = ?a and v = JNull]
          BaseClient_constructor_example a b
    by simp
qed

end
